theory Spec2Isabelle
  imports Complex_Main "HOL-Library.AList" "HOL-Library.Log_Nat"
begin

section \<open>The sequence reporter plugin: data model\<close>

text \<open>
  The plugin (\<^verbatim>\<open>src/pytest_sequence_reporter/plugin.py\<close>) is a set of hooks that the
  test runner calls. Its module globals become the fields of a state record that every
  hook takes and returns; what it prints and what it posts are recorded in the same
  state, so that a hook's effects can be read off the state it returns.
\<close>

subsection \<open>Values supplied by the test runner\<close>

text \<open>
  The Python values that travel through the plugin untouched: option defaults, help
  texts and the values of user properties. \<open>PObject\<close> is any other object, named by
  its type; the plugin accepts whatever the runner or the user supplies.
\<close>

datatype pyval = PNone | PBool bool | PInt int | PStr string | PObject string

subsection \<open>Python floats\<close>

text \<open>
  A Python float is an IEEE 754 binary64 value. \<open>Finite sign m e\<close> is the number
  \<open>m * 2 ^ e\<close>, negated when \<open>sign\<close> is set. The format holds the numbers with a
  mantissa \<open>m\<close> below \<open>2 ^ 53\<close> that is normalised (at least \<open>2 ^ 52\<close>) unless the
  exponent is the least one, \<open>- 1074\<close>, which gives the subnormal numbers and the two
  zeros; the largest exponent is \<open>971\<close>. \<open>Infinity sign\<close> and \<open>NaN\<close> are the
  remaining values.
\<close>

datatype float64 = Finite bool int int | Infinity bool | NaN


definition fzero :: float64 where
  "fzero = Finite False 0 (- 1074)"

text \<open>
  \<open>m / 2 ^ k\<close> rounded to the nearest integer, a tie going to the even one: the
  rounding of every float operation of Python.
\<close>

definition round_half_even :: "int \<Rightarrow> nat \<Rightarrow> int" where
  "round_half_even m k =
     (let q = m div 2 ^ k; r = m mod 2 ^ k
      in if 2 ^ k < 2 * r \<or> (2 * r = 2 ^ k \<and> odd q) then q + 1 else q)"

text \<open>
  The float nearest to \<open>m * 2 ^ e\<close> for \<open>0 < m\<close> and an exponent \<open>e\<close> not below the
  least one: a mantissa of more than 53 bits loses its low bits by rounding, and a
  result beyond the largest float is an infinity.
\<close>

definition round_to_double :: "bool \<Rightarrow> int \<Rightarrow> int \<Rightarrow> float64" where
  "round_to_double sign m e =
     (let k = bitlen m
      in if 53 < k
         then (let sh = nat (k - 53);
                   m' = round_half_even m sh;
                   e' = e + int sh
               in if m' = 2 ^ 53
                  then (if 971 < e' + 1 then Infinity sign else Finite sign (2 ^ 52) (e' + 1))
                  else (if 971 < e' then Infinity sign else Finite sign m' e'))
         else (let sh = nat (min (53 - k) (e + 1074))
               in if 971 < e - int sh then Infinity sign
                  else Finite sign (m * 2 ^ sh) (e - int sh)))"

text \<open>
  Python's \<^verbatim>\<open>+\<close> on floats: the exact sum, rounded. A sum that is exactly zero is
  \<open>-0.0\<close> only when both operands are.
\<close>

fun fadd :: "float64 \<Rightarrow> float64 \<Rightarrow> float64" where
  "fadd NaN _ = NaN"
| "fadd _ NaN = NaN"
| "fadd (Infinity s) (Infinity t) = (if s = t then Infinity s else NaN)"
| "fadd (Infinity s) (Finite _ _ _) = Infinity s"
| "fadd (Finite _ _ _) (Infinity t) = Infinity t"
| "fadd (Finite s1 m1 e1) (Finite s2 m2 e2) =
     (let e0 = min e1 e2;
          a = (if s1 then - 1 else 1) * m1 * 2 ^ nat (e1 - e0);
          b = (if s2 then - 1 else 1) * m2 * 2 ^ nat (e2 - e0);
          c = a + b
      in if c = 0 then Finite (m1 = 0 \<and> m2 = 0 \<and> s1 \<and> s2) 0 (- 1074)
         else round_to_double (c < 0) \<bar>c\<bar> e0)"

text \<open>The rational number a finite float stands for.\<close>

definition finite_value :: "bool \<Rightarrow> int \<Rightarrow> int \<Rightarrow> rat" where
  "finite_value sign m e =
     (if sign then - 1 else 1) * of_int m * (if 0 \<le> e then 2 ^ nat e else 1 / 2 ^ nat (- e))"

subsection \<open>Phase reports\<close>

text \<open>
  A phase report of the runner. The plugin reads \<^verbatim>\<open>nodeid\<close>, \<^verbatim>\<open>when\<close>,
  \<^verbatim>\<open>outcome\<close>, \<^verbatim>\<open>duration\<close>, \<^verbatim>\<open>user_properties\<close> and, through
  \<^verbatim>\<open>getattr(report, 'wasxfail', False)\<close>, the attribute \<^verbatim>\<open>wasxfail\<close>, which a report
  may lack (\<open>None\<close>) and which otherwise holds the reason text. \<^verbatim>\<open>when\<close> and
  \<^verbatim>\<open>outcome\<close> are Python strings and are kept as strings. \<^verbatim>\<open>duration\<close> is a
  Python float.
\<close>

record report =
  nodeid :: string
  when_phase :: string
  outcome :: string
  duration :: float64
  wasxfail :: "string option"
  user_properties :: "(string \<times> pyval) list"

text \<open>
  The inner dictionary \<^verbatim>\<open>test_reports[nodeid]\<close> maps a phase name to its report. A
  Python dictionary keeps insertion order and an assignment to an existing key keeps the
  key's position, which is what \<^const>\<open>AList.update\<close> does on an association list;
  \<^verbatim>\<open>reports.get(k)\<close> is \<^const>\<open>map_of\<close>.
\<close>

type_synonym reports = "(string \<times> report) list"

subsection \<open>Outcome reconciliation (lines 123 to 157 of the hook)\<close>

text \<open>
  \<^verbatim>\<open>getattr(report, 'wasxfail', False)\<close> used as a condition: false when the attribute
  is missing, otherwise the truth value of the string it holds.
\<close>

definition getattr_wasxfail :: "report \<Rightarrow> bool" where
  "getattr_wasxfail rep = (case wasxfail rep of None \<Rightarrow> False | Some reason \<Rightarrow> reason \<noteq> [])"

text \<open>
  \<^verbatim>\<open>rep and rep.outcome == 'failed' and not getattr(rep, 'wasxfail', False)\<close> for the
  result of a \<^verbatim>\<open>reports.get\<close>.
\<close>

definition failed_unexpectedly :: "report option \<Rightarrow> bool" where
  "failed_unexpectedly r =
     (case r of None \<Rightarrow> False
      | Some rep \<Rightarrow> outcome rep = ''failed'' \<and> \<not> getattr_wasxfail rep)"

definition reconcile_outcome :: "reports \<Rightarrow> string" where
  "reconcile_outcome reps =
     (let setup_report = map_of reps ''setup'';
          call_report = map_of reps ''call'';
          teardown_report = map_of reps ''teardown''
      in if failed_unexpectedly setup_report \<or> failed_unexpectedly teardown_report
         then ''error''
         else (case call_report of
                 Some c \<Rightarrow>
                   (if getattr_wasxfail c
                    then (if outcome c = ''passed'' then ''xpassed'' else ''xfailed'')
                    else (if outcome c = ''passed'' then ''passed''
                          else if outcome c = ''failed'' then ''failed''
                          else if outcome c = ''skipped'' then ''skipped''
                          else outcome c))
               | None \<Rightarrow>
                   (case setup_report of
                      Some s \<Rightarrow> (if outcome s = ''skipped'' then ''skipped'' else ''error'')
                    | None \<Rightarrow> ''error'')))"

subsection \<open>Total duration and user properties (lines 159 to 166)\<close>

text \<open>
  \<^verbatim>\<open>sum(rep.duration for rep in reports.values() if rep)\<close>: Python's \<^verbatim>\<open>sum\<close> starts
  from the integer 0, which the first addition turns into the float \<open>0.0\<close>, and adds
  the values one by one in the dictionary's order, each addition rounding. (This is
  \<^verbatim>\<open>sum\<close> up to CPython 3.11; from 3.12 on it carries a correction term for floats.) A
  report object is always truthy, so the filter keeps every value.
\<close>

definition total_duration :: "reports \<Rightarrow> float64" where
  "total_duration reps = foldl fadd fzero (map (\<lambda>kv. duration (snd kv)) reps)"

text \<open>
  The loop over \<^verbatim>\<open>['call', 'setup', 'teardown']\<close> that extends the list with the
  properties of every phase that has a report and a non-empty property list.
\<close>

definition collect_user_properties :: "reports \<Rightarrow> (string \<times> pyval) list" where
  "collect_user_properties reps =
     foldl (\<lambda>acc phase.
              (case map_of reps phase of
                 None \<Rightarrow> acc
               | Some phase_report \<Rightarrow>
                   (if user_properties phase_report \<noteq> []
                    then acc @ user_properties phase_report else acc)))
       [] [''call'', ''setup'', ''teardown'']"

subsection \<open>Messages, exceptions and the plugin's state\<close>

text \<open>The two dictionaries the plugin posts; the \<^verbatim>\<open>event\<close> key is the constructor.\<close>

datatype message =
    Test_started (test_id: string)
  | Test_finished (test_id: string) (msg_outcome: string) (msg_duration: float64)
      (details: "(string \<times> pyval) list")

text \<open>
  Exceptions that can reach the plugin's \<^verbatim>\<open>try\<close> blocks or leave its hooks, each with
  the text \<^verbatim>\<open>str(e)\<close> gives. \<open>HTTPError\<close> is what \<^verbatim>\<open>response.raise_for_status()\<close>
  raises for a status it counts as a failure; \<open>ConnectionError\<close> and \<open>Timeout\<close> are
  transport failures; \<open>RequestException\<close> stands for the base class and its remaining
  subclasses; \<open>OtherException\<close> is any exception outside that hierarchy; \<open>Exit\<close> is
  what \<^verbatim>\<open>pytest.exit(msg, returncode)\<close> raises.
\<close>

datatype py_exception =
    HTTPError string
  | ConnectionError string
  | Timeout string
  | RequestException string
  | OtherException string
  | Exit string int

fun isinstance_RequestException :: "py_exception \<Rightarrow> bool" where
  "isinstance_RequestException (HTTPError _) = True"
| "isinstance_RequestException (ConnectionError _) = True"
| "isinstance_RequestException (Timeout _) = True"
| "isinstance_RequestException (RequestException _) = True"
| "isinstance_RequestException (OtherException _) = False"
| "isinstance_RequestException (Exit _ _) = False"

fun str_exc :: "py_exception \<Rightarrow> string" where
  "str_exc (HTTPError m) = m"
| "str_exc (ConnectionError m) = m"
| "str_exc (Timeout m) = m"
| "str_exc (RequestException m) = m"
| "str_exc (OtherException m) = m"
| "str_exc (Exit m _) = m"

text \<open>
  What a call into a library outside the repository does: it returns or it raises. For a
  test hook it describes the two calls at the head of the \<^verbatim>\<open>try\<close> block,
  \<^verbatim>\<open>requests.post(...)\<close> and then \<^verbatim>\<open>response.raise_for_status()\<close>: both return, or one
  of them raises. For \<^verbatim>\<open>add_custom_option\<close> it describes \<^verbatim>\<open>parser.addoption(...)\<close>. It
  is an input of the function that makes the call.
\<close>

datatype call_outcome = Returned | Raised py_exception

type_synonym post_outcome = call_outcome

text \<open>One dictionary of \<^verbatim>\<open>custom_options\<close>: the keys \<^verbatim>\<open>name\<close>, \<^verbatim>\<open>default\<close>, \<^verbatim>\<open>help\<close>.\<close>

record custom_option =
  opt_name :: string
  opt_default :: pyval
  opt_help :: pyval

text \<open>
  The module globals, followed by the observable effects: the lines printed, the
  exceptions whose traceback \<^verbatim>\<open>traceback.print_exc()\<close> wrote, and the calls of
  \<^verbatim>\<open>requests.post\<close> made so far, each with its URL and its JSON body.
\<close>

record plugin_state =
  custom_options :: "custom_option list"
  sequencer_reporting_enabled :: bool
  sequencer_api_url :: string
  test_reports :: "(string \<times> reports) list"
  stdout :: "string list"
  stderr :: "py_exception list"
  posts :: "(string \<times> message) list"

definition API_ENDPOINT :: string where
  "API_ENDPOINT = ''/message''"

definition initial_state :: plugin_state where
  "initial_state =
     \<lparr>custom_options = [], sequencer_reporting_enabled = False,
      sequencer_api_url = ''http://localhost:8765/'', test_reports = [],
      stdout = [], stderr = [], posts = []\<rparr>"

subsection \<open>Options and configuration\<close>

text \<open>
  \<^verbatim>\<open>add_custom_option\<close> with \<^verbatim>\<open>args[0]\<close> as \<open>name\<close> and the results of
  \<^verbatim>\<open>kwargs.get("default")\<close> and \<^verbatim>\<open>kwargs.get("help")\<close>. The call of
  \<^verbatim>\<open>parser.addoption\<close> comes first: when the runner's parser raises (it refuses a name
  it already has, for one), nothing is appended and the exception leaves the function.
  The parser itself belongs to the runner and is not part of the state; the option
  object that is returned is not used by any caller.
\<close>

definition add_custom_option ::
  "call_outcome \<Rightarrow> string \<Rightarrow> pyval \<Rightarrow> pyval \<Rightarrow> plugin_state \<Rightarrow> plugin_state \<times> py_exception option" where
  "add_custom_option addoption name dflt hlp s =
     (case addoption of
        Raised e \<Rightarrow> (s, Some e)
      | Returned \<Rightarrow>
          (s\<lparr>custom_options := custom_options s @
               [\<lparr>opt_name = name, opt_default = dflt, opt_help = hlp\<rparr>]\<rparr>, None))"

text \<open>
  \<^verbatim>\<open>pytest_addoption\<close>: the three registrations in the order of the source, each with
  what the parser does; an exception ends the hook.
\<close>

definition pytest_addoption ::
  "call_outcome \<Rightarrow> call_outcome \<Rightarrow> call_outcome \<Rightarrow> plugin_state \<Rightarrow> plugin_state \<times> py_exception option" where
  "pytest_addoption ao1 ao2 ao3 s =
     (case add_custom_option ao1 ''--enable-sequencer-reporting'' (PBool False)
             (PStr ''Enable notifications to the test sequencer GUI.'') s of
        (s1, Some e) \<Rightarrow> (s1, Some e)
      | (s1, None) \<Rightarrow>
          (case add_custom_option ao2 ''--list-options'' (PBool False)
                  (PStr ''List all pytest addoptions with their default values'') s1 of
             (s2, Some e) \<Rightarrow> (s2, Some e)
           | (s2, None) \<Rightarrow>
               add_custom_option ao3 ''--sequencer-api'' (PStr ''http://localhost:8765/'')
                 (PStr ''API URL for sequencer'') s2))"

text \<open>
  \<^verbatim>\<open>pytest_sessionstart\<close>. \<open>list_options\<close> is the truth value of
  \<^verbatim>\<open>config.getoption("list_options", False)\<close>; \<open>dumps\<close> is \<^verbatim>\<open>json.dumps\<close> on a list
  of option dictionaries, a library function that returns the text or raises. The call
  is not inside a \<^verbatim>\<open>try\<close>, so what it raises leaves the hook. A hook returns the new
  state and the exception it raised, if any.
\<close>

definition pytest_sessionstart ::
  "(custom_option list \<Rightarrow> py_exception + string) \<Rightarrow> bool \<Rightarrow> plugin_state
     \<Rightarrow> plugin_state \<times> py_exception option" where
  "pytest_sessionstart dumps list_options s =
     (if list_options
      then (let filtered_options =
                  filter (\<lambda>option. opt_name option \<noteq> ''--list-options'') (custom_options s)
            in (case dumps filtered_options of
                  Inl e \<Rightarrow> (s, Some e)
                | Inr json_output \<Rightarrow>
                    (s\<lparr>stdout := stdout s @ [json_output]\<rparr>,
                     Some (Exit ''Listed all custom options in JSON format.'' 0))))
      else (s, None))"

text \<open>
  \<^verbatim>\<open>pytest_configure\<close>, with the values of the two \<^verbatim>\<open>config.getoption\<close> calls.
\<close>

definition pytest_configure :: "bool \<Rightarrow> string \<Rightarrow> plugin_state \<Rightarrow> plugin_state" where
  "pytest_configure enable api_url s =
     (let s1 = s\<lparr>sequencer_reporting_enabled := enable, sequencer_api_url := api_url\<rparr>
      in if enable
         then s1\<lparr>stdout := stdout s1 @
                [''Sequencer reporting is enabled. Messages will be sent to '' @ api_url]\<rparr>
         else s1\<lparr>stdout := stdout s1 @ [''Sequencer reporting is disabled.'']\<rparr>)"

subsection \<open>The test hooks\<close>

type_synonym location = "string \<times> nat option \<times> string"

text \<open>
  \<^verbatim>\<open>pytest_runtest_logstart\<close>. An empty string is the falsy test id. The
  \<^verbatim>\<open>except\<close> clause handles instances of \<^verbatim>\<open>requests.RequestException\<close> only; any
  other exception leaves the hook.
\<close>

definition pytest_runtest_logstart ::
  "post_outcome \<Rightarrow> string \<Rightarrow> location \<Rightarrow> plugin_state \<Rightarrow> plugin_state \<times> py_exception option" where
  "pytest_runtest_logstart po nid loc s =
     (if nid = [] \<or> \<not> sequencer_reporting_enabled s then (s, None)
      else
        (let message = Test_started nid;
             s1 = s\<lparr>posts := posts s @ [(sequencer_api_url s @ API_ENDPOINT, message)]\<rparr>
         in (case po of
               Returned \<Rightarrow>
                 (s1\<lparr>stdout := stdout s1 @ [''Sent test_started message for '' @ nid]\<rparr>, None)
             | Raised e \<Rightarrow>
                 (if isinstance_RequestException e
                  then (s1\<lparr>stdout := stdout s1 @
                              [''Failed to send test_started message for '' @ nid,
                               ''Exception: '' @ str_exc e],
                            stderr := stderr s1 @ [e]\<rparr>, None)
                  else (s1, Some e)))))"

text \<open>
  Lines 113 to 118: the entry of the report's test id, created empty when missing, with
  the report stored under its phase name. The outer dictionary \<^verbatim>\<open>test_reports\<close> is an
  association list as well: \<^verbatim>\<open>test_reports[nodeid] = ...\<close> is \<^const>\<open>AList.update\<close>,
  \<^verbatim>\<open>del test_reports[nodeid]\<close> is \<^const>\<open>AList.delete\<close>, and a lookup is
  \<^const>\<open>map_of\<close>.
\<close>

definition store_report :: "plugin_state \<Rightarrow> report \<Rightarrow> reports" where
  "store_report s rep =
     AList.update (when_phase rep) rep
       (case map_of (test_reports s) (nodeid rep) of None \<Rightarrow> [] | Some reps \<Rightarrow> reps)"

text \<open>
  \<^verbatim>\<open>pytest_runtest_logreport\<close>. The \<^verbatim>\<open>finally\<close> clause deletes the entry on every
  path out of the \<^verbatim>\<open>try\<close> block, also when an exception passes through.
\<close>

definition pytest_runtest_logreport ::
  "post_outcome \<Rightarrow> report \<Rightarrow> plugin_state \<Rightarrow> plugin_state \<times> py_exception option" where
  "pytest_runtest_logreport po rep s =
     (if \<not> sequencer_reporting_enabled s then (s, None)
      else
        (let nid = nodeid rep;
             reps = store_report s rep;
             s1 = s\<lparr>test_reports := AList.update nid reps (test_reports s)\<rparr>
         in if when_phase rep = ''teardown''
            then
              (let outc = reconcile_outcome reps;
                   message = Test_finished nid outc (total_duration reps)
                               (collect_user_properties reps);
                   s2 = s1\<lparr>posts := posts s1 @ [(sequencer_api_url s1 @ API_ENDPOINT, message)]\<rparr>;
                   evict = (\<lambda>t. t\<lparr>test_reports := AList.delete nid (test_reports t)\<rparr>)
               in (case po of
                     Returned \<Rightarrow>
                       (evict (s2\<lparr>stdout := stdout s2 @
                                 [''Sent test_finished message for '' @ nid @
                                  '' with outcome: '' @ outc]\<rparr>), None)
                   | Raised e \<Rightarrow>
                       (if isinstance_RequestException e
                        then (evict (s2\<lparr>stdout := stdout s2 @
                                       [''Failed to send test_finished message for '' @ nid,
                                        ''Exception: '' @ str_exc e],
                                     stderr := stderr s2 @ [e]\<rparr>), None)
                        else (evict s2, Some e))))
            else (s1, None)))"

definition pytest_sessionfinish :: "plugin_state \<Rightarrow> plugin_state" where
  "pytest_sessionfinish s = s"

subsection \<open>Sequences of hook calls\<close>

text \<open>
  One call of a test hook by the runner, and a run of such calls, each with what the
  network does during it. An exception that leaves a hook ends the run.
\<close>

datatype hook_call =
    Logstart string location
  | Logreport report

fun call_hook :: "post_outcome \<Rightarrow> hook_call \<Rightarrow> plugin_state \<Rightarrow> plugin_state \<times> py_exception option" where
  "call_hook po (Logstart nid loc) s = pytest_runtest_logstart po nid loc s"
| "call_hook po (Logreport rep) s = pytest_runtest_logreport po rep s"

fun run_hooks :: "(hook_call \<times> post_outcome) list \<Rightarrow> plugin_state \<Rightarrow> plugin_state \<times> py_exception option" where
  "run_hooks [] s = (s, None)"
| "run_hooks ((h, po) # calls) s =
     (case call_hook po h s of
        (s', None) \<Rightarrow> run_hooks calls s'
      | (s', Some e) \<Rightarrow> (s', Some e))"

text \<open>
  A session as the docstring of \<^verbatim>\<open>pytest_sessionstart\<close> describes it: the hook runs
  before any test is collected or executed, so the test hooks run only when it returns.
\<close>

definition run_session ::
  "(custom_option list \<Rightarrow> py_exception + string) \<Rightarrow> bool \<Rightarrow> (hook_call \<times> post_outcome) list \<Rightarrow> plugin_state
     \<Rightarrow> plugin_state \<times> py_exception option" where
  "run_session dumps list_options calls s =
     (case pytest_sessionstart dumps list_options s of
        (s', None) \<Rightarrow> run_hooks calls s'
      | (s', Some e) \<Rightarrow> (s', Some e))"

subsection \<open>Vocabulary of the specification\<close>


text \<open>
  The shape every buffer entry has by construction: one report per phase name, each
  stored under its own test id and phase name.
\<close>

definition entry_ok :: "string \<Rightarrow> reports \<Rightarrow> bool" where
  "entry_ok nid reps =
     (distinct (map fst reps) \<and> list_all (\<lambda>kv. nodeid (snd kv) = nid \<and> when_phase (snd kv) = fst kv) reps)"

definition buffer_ok :: "plugin_state \<Rightarrow> bool" where
  "buffer_ok s = list_all (\<lambda>kv. entry_ok (fst kv) (snd kv)) (test_reports s)"

text \<open>
  A delivery attempt that stays within the hook's handler: the library calls return, or
  they raise an instance of \<^verbatim>\<open>requests.RequestException\<close> (a failure status reported by
  \<^verbatim>\<open>raise_for_status\<close>, or a transport failure).
\<close>

definition handled :: "post_outcome \<Rightarrow> bool" where
  "handled po = (case po of Returned \<Rightarrow> True | Raised e \<Rightarrow> isinstance_RequestException e)"

subsection \<open>Concrete inputs\<close>

text \<open>
  The floats that Python reads from the literals \<^verbatim>\<open>0.1\<close>, \<^verbatim>\<open>0.2\<close>, \<^verbatim>\<open>0.05\<close> and
  \<^verbatim>\<open>0.35\<close>.
\<close>

definition d0_1 :: float64 where
  "d0_1 = Finite False 7205759403792794 (- 56)"

definition d0_2 :: float64 where
  "d0_2 = Finite False 7205759403792794 (- 55)"

definition d0_05 :: float64 where
  "d0_05 = Finite False 7205759403792794 (- 57)"


text \<open>
  The test of the specification's end-to-end example, the state after the options are
  registered, a state configured with reporting switched on, one with reporting switched
  off, and the state in which the setup and call reports of the test are buffered.
\<close>

definition registered_state :: plugin_state where
  "registered_state = fst (pytest_addoption Returned Returned Returned initial_state)"

definition example_report :: "string \<Rightarrow> string \<Rightarrow> float64 \<Rightarrow> report" where
  "example_report phase outc d =
     \<lparr>nodeid = ''test_mod.py::test_ok'', when_phase = phase, outcome = outc, duration = d,
      wasxfail = None, user_properties = []\<rparr>"

definition enabled_state :: plugin_state where
  "enabled_state = pytest_configure True ''http://localhost:8765/'' registered_state"

definition disabled_state :: plugin_state where
  "disabled_state = pytest_configure False ''http://localhost:8765/'' registered_state"

definition buffered_state :: plugin_state where
  "buffered_state =
     fst (run_hooks
            [(Logreport (example_report ''setup'' ''passed'' d0_1), Returned),
             (Logreport (example_report ''call'' ''passed'' d0_2), Returned)]
            enabled_state)"

text \<open>
  A stand-in for the serialiser that joins the option names; it serves as a concrete
  function where one is needed, not as a model of \<^verbatim>\<open>json.dumps\<close>.
\<close>

definition join_names :: "custom_option list \<Rightarrow> py_exception + string" where
  "join_names opts = Inr (concat (map opt_name opts))"

section \<open>Auxiliary facts\<close>

subsection \<open>Association lists\<close>

lemma list_all_update:
  "P (k, v) \<Longrightarrow> list_all P al \<Longrightarrow> list_all P (AList.update k v al)"
  by (induction al) auto

lemma list_all_delete: "list_all P al \<Longrightarrow> list_all P (AList.delete k al)"
  by (simp add: AList.delete_eq list_all_iff)

lemma map_of_delete_same: "map_of (AList.delete k al) k = None"
  by (simp add: AList.delete_conv)

subsection \<open>The expected-failure mark\<close>

text \<open>
  The mark is read by truth value: a report without the attribute and a report whose
  \<^verbatim>\<open>wasxfail\<close> is the empty string are both unmarked for the reconciliation.
\<close>

lemma getattr_wasxfail_iff:
  "getattr_wasxfail rep \<longleftrightarrow> (\<exists>reason. wasxfail rep = Some reason \<and> reason \<noteq> [])"
  by (simp add: getattr_wasxfail_def split: option.splits)

text \<open>
  What the call report decides, by the truth value of the mark; and by the presence of
  the mark for every report whose reason is not the empty string.
\<close>

lemma call_report_by_truth_value:
  assumes "\<not> failed_unexpectedly (map_of reps ''setup'')"
    and "\<not> failed_unexpectedly (map_of reps ''teardown'')"
    and "map_of reps ''call'' = Some c"
  shows "reconcile_outcome reps =
           (if getattr_wasxfail c
            then (if outcome c = ''passed'' then ''xpassed'' else ''xfailed'')
            else outcome c)"
  using assms by (simp add: reconcile_outcome_def Let_def)

lemma call_report_by_presence:
  assumes "\<not> failed_unexpectedly (map_of reps ''setup'')"
    and "\<not> failed_unexpectedly (map_of reps ''teardown'')"
    and "map_of reps ''call'' = Some c"
    and "wasxfail c \<noteq> Some []"
  shows "reconcile_outcome reps =
           (if wasxfail c \<noteq> None
            then (if outcome c = ''passed'' then ''xpassed'' else ''xfailed'')
            else outcome c)"
proof -
  from assms(4) have "getattr_wasxfail c \<longleftrightarrow> wasxfail c \<noteq> None"
    by (auto simp: getattr_wasxfail_def split: option.splits)
  with call_report_by_truth_value [OF assms(1-3)] show ?thesis
    by simp
qed

subsection \<open>Float addition\<close>

text \<open>
  The constants are the floats nearest to the decimal numbers they are named after: each
  is closer to its number than half the distance to the next float.
\<close>

lemma example_floats_nearest:
  "\<bar>finite_value False 7205759403792794 (- 56) - 1 / 10\<bar> < 1 / 2 ^ 57"
  "\<bar>finite_value False 7205759403792794 (- 55) - 2 / 10\<bar> < 1 / 2 ^ 56"
  "\<bar>finite_value False 7205759403792794 (- 57) - 5 / 100\<bar> < 1 / 2 ^ 58"
  "\<bar>finite_value False 6305039478318694 (- 54) - 35 / 100\<bar> < 1 / 2 ^ 55"
  by (simp_all add: finite_value_def)



text \<open>
  More of Python's \<^verbatim>\<open>+\<close>: \<^verbatim>\<open>1e16 + 1.0\<close> is \<^verbatim>\<open>1e16\<close> (a tie, rounded to the even
  mantissa), the largest float added to itself is \<^verbatim>\<open>inf\<close>, the least subnormal float
  added to itself is exact, \<^verbatim>\<open>1.0 + (-1.0)\<close> is \<^verbatim>\<open>0.0\<close>, \<^verbatim>\<open>0.0 + (-0.0)\<close> is
  \<^verbatim>\<open>0.0\<close>, and \<^verbatim>\<open>inf + (-inf)\<close> is \<^verbatim>\<open>nan\<close>.
\<close>

lemma fadd_more_examples:
  "fadd (Finite False 5000000000000000 1) (Finite False 4503599627370496 (- 52))
     = Finite False 5000000000000000 1"
  "fadd (Finite False 9007199254740991 971) (Finite False 9007199254740991 971)
     = Infinity False"
  "fadd (Finite False 1 (- 1074)) (Finite False 1 (- 1074)) = Finite False 2 (- 1074)"
  "fadd (Finite False 4503599627370496 (- 52)) (Finite True 4503599627370496 (- 52)) = fzero"
  "fadd fzero (Finite True 0 (- 1074)) = fzero"
  "fadd (Infinity False) (Infinity True) = NaN"
  by code_simp+






subsection \<open>The sum over the stored reports\<close>



subsection \<open>The hooks, case by case\<close>

lemma logreport_disabled:
  "\<not> sequencer_reporting_enabled s \<Longrightarrow> pytest_runtest_logreport po rep s = (s, None)"
  by (simp add: pytest_runtest_logreport_def)

lemma logstart_disabled:
  "\<not> sequencer_reporting_enabled s \<Longrightarrow> pytest_runtest_logstart po nid loc s = (s, None)"
  by (simp add: pytest_runtest_logstart_def)

lemma logreport_other_phase:
  "sequencer_reporting_enabled s \<Longrightarrow> when_phase rep \<noteq> ''teardown'' \<Longrightarrow>
   pytest_runtest_logreport po rep s =
     (s\<lparr>test_reports := AList.update (nodeid rep) (store_report s rep) (test_reports s)\<rparr>, None)"
  by (simp add: pytest_runtest_logreport_def Let_def)

lemma logreport_teardown_buffer:
  "sequencer_reporting_enabled s \<Longrightarrow> when_phase rep = ''teardown'' \<Longrightarrow>
   test_reports (fst (pytest_runtest_logreport po rep s)) =
     AList.delete (nodeid rep) (AList.update (nodeid rep) (store_report s rep) (test_reports s))"
  by (simp add: pytest_runtest_logreport_def Let_def split: call_outcome.splits)


lemma logreport_raised:
  "snd (pytest_runtest_logreport po rep s) =
     (case po of
        Returned \<Rightarrow> None
      | Raised e \<Rightarrow>
          (if sequencer_reporting_enabled s \<and> when_phase rep = ''teardown''
              \<and> \<not> isinstance_RequestException e
           then Some e else None))"
  by (simp add: pytest_runtest_logreport_def Let_def split: call_outcome.splits)

lemma logstart_raised:
  "snd (pytest_runtest_logstart po nid loc s) =
     (case po of
        Returned \<Rightarrow> None
      | Raised e \<Rightarrow>
          (if nid \<noteq> [] \<and> sequencer_reporting_enabled s \<and> \<not> isinstance_RequestException e
           then Some e else None))"
  by (simp add: pytest_runtest_logstart_def Let_def split: call_outcome.splits)

lemma call_hook_handled: "handled po \<Longrightarrow> snd (call_hook po h s) = None"
  by (cases h) (auto simp: handled_def logstart_raised logreport_raised split: call_outcome.splits)

lemma run_hooks_handled:
  "list_all (\<lambda>c. handled (snd c)) calls \<Longrightarrow> snd (run_hooks calls s) = None"
proof (induction calls arbitrary: s)
  case Nil
  then show ?case by simp
next
  case (Cons c calls)
  obtain h po where c: "c = (h, po)" by (cases c)
  obtain s' r where step: "call_hook po h s = (s', r)" by (cases "call_hook po h s")
  from Cons.prems c have "handled po" and rest: "list_all (\<lambda>c. handled (snd c)) calls"
    by simp_all
  then have "r = None"
    using call_hook_handled [of po h s] step by simp
  with c step Cons.IH [OF rest] show ?case by simp
qed

lemma call_hook_disabled: "\<not> sequencer_reporting_enabled s \<Longrightarrow> call_hook po h s = (s, None)"
  by (cases h) (simp_all add: logstart_disabled logreport_disabled)

lemma run_hooks_disabled: "\<not> sequencer_reporting_enabled s \<Longrightarrow> run_hooks calls s = (s, None)"
proof (induction calls)
  case Nil
  then show ?case by simp
next
  case (Cons c calls)
  then show ?case
    by (cases c) (simp add: call_hook_disabled)
qed

subsection \<open>The shape of the buffer is invariant\<close>

text \<open>
  Every state that the hooks reach from the initial state satisfies \<^const>\<open>buffer_ok\<close>.
\<close>

lemma entry_ok_lookup:
  "buffer_ok s \<Longrightarrow> map_of (test_reports s) nid = Some reps \<Longrightarrow> entry_ok nid reps"
  by (auto simp: buffer_ok_def list_all_iff dest!: map_of_SomeD)

lemma entry_ok_Nil: "entry_ok nid []"
  by (simp add: entry_ok_def)

lemma entry_ok_update:
  "entry_ok nid reps \<Longrightarrow> nodeid rep = nid \<Longrightarrow> entry_ok nid (AList.update (when_phase rep) rep reps)"
  by (simp add: entry_ok_def AList.distinct_update list_all_update)

lemma entry_ok_store_report:
  assumes "buffer_ok s"
  shows "entry_ok (nodeid rep) (store_report s rep)"
proof (cases "map_of (test_reports s) (nodeid rep)")
  case None
  then show ?thesis
    by (simp add: store_report_def entry_ok_def)
next
  case (Some reps)
  with assms have "entry_ok (nodeid rep) reps"
    by (simp add: entry_ok_lookup)
  with Some show ?thesis
    by (simp add: store_report_def entry_ok_update)
qed

lemma buffer_ok_initial: "buffer_ok initial_state"
  by (simp add: buffer_ok_def initial_state_def)

lemma buffer_ok_configure: "buffer_ok s \<Longrightarrow> buffer_ok (pytest_configure enable url s)"
  by (simp add: pytest_configure_def buffer_ok_def Let_def)

lemma buffer_ok_logstart: "buffer_ok s \<Longrightarrow> buffer_ok (fst (pytest_runtest_logstart po nid loc s))"
  by (simp add: pytest_runtest_logstart_def buffer_ok_def Let_def split: call_outcome.splits)

lemma buffer_ok_logreport:
  assumes "buffer_ok s"
  shows "buffer_ok (fst (pytest_runtest_logreport po rep s))"
proof (cases "sequencer_reporting_enabled s")
  case False
  with assms show ?thesis by (simp add: logreport_disabled)
next
  case True
  have stored: "list_all (\<lambda>kv. entry_ok (fst kv) (snd kv))
                  (AList.update (nodeid rep) (store_report s rep) (test_reports s))"
    using assms entry_ok_store_report [OF assms, of rep]
    by (intro list_all_update) (simp_all add: buffer_ok_def)
  show ?thesis
  proof (cases "when_phase rep = ''teardown''")
    case True
    with \<open>sequencer_reporting_enabled s\<close> stored show ?thesis
      by (simp add: buffer_ok_def logreport_teardown_buffer list_all_delete)
  next
    case False
    with \<open>sequencer_reporting_enabled s\<close> stored show ?thesis
      by (simp add: buffer_ok_def logreport_other_phase)
  qed
qed

lemma buffer_ok_call_hook: "buffer_ok s \<Longrightarrow> buffer_ok (fst (call_hook po h s))"
  by (cases h) (simp_all add: buffer_ok_logstart buffer_ok_logreport)

lemma buffer_ok_run_hooks: "buffer_ok s \<Longrightarrow> buffer_ok (fst (run_hooks calls s))"
proof (induction calls arbitrary: s)
  case Nil
  then show ?case by simp
next
  case (Cons c calls)
  obtain h po where c: "c = (h, po)" by (cases c)
  obtain s' r where step: "call_hook po h s = (s', r)" by (cases "call_hook po h s")
  from Cons.prems have ok: "buffer_ok s'"
    using buffer_ok_call_hook [of s po h] step by simp
  show ?case
  proof (cases r)
    case None
    with c step Cons.IH [OF ok] show ?thesis by simp
  next
    case (Some e)
    with c step ok show ?thesis by simp
  qed
qed

lemma store_report_after_teardown_same:
  assumes "sequencer_reporting_enabled s" and "when_phase rep = ''teardown''"
    and "nodeid r2 = nodeid rep"
  shows "store_report (fst (pytest_runtest_logreport po rep s)) r2 = [(when_phase r2, r2)]"
  using assms by (simp add: store_report_def logreport_teardown_buffer map_of_delete_same)

lemma store_report_after_teardown_other:
  assumes "sequencer_reporting_enabled s" and "when_phase rep = ''teardown''"
    and "nodeid r2 \<noteq> nodeid rep"
  shows "store_report (fst (pytest_runtest_logreport po rep s)) r2 = store_report s r2"
  using assms by (simp add: store_report_def logreport_teardown_buffer AList.delete_conv AList.update_conv')

lemma store_report_nodeids:
  assumes "buffer_ok s"
  shows "list_all (\<lambda>kv. nodeid (snd kv) = nodeid r2) (store_report s r2)"
  using entry_ok_store_report [OF assms, of r2] by (simp add: entry_ok_def list_all_iff)

subsection \<open>The concrete states\<close>

lemmas example_defs =
  example_report_def registered_state_def enabled_state_def disabled_state_def buffered_state_def
  pytest_configure_def pytest_addoption_def add_custom_option_def initial_state_def
  pytest_runtest_logreport_def pytest_runtest_logstart_def store_report_def
  reconcile_outcome_def failed_unexpectedly_def getattr_wasxfail_def total_duration_def
  collect_user_properties_def API_ENDPOINT_def Let_def

lemma buffered_state_eq:
  "buffered_state =
     enabled_state\<lparr>test_reports :=
       [(''test_mod.py::test_ok'',
         [(''setup'', example_report ''setup'' ''passed'' d0_1),
          (''call'', example_report ''call'' ''passed'' d0_2)])]\<rparr>"
  by (simp add: example_defs)

lemma enabled_state_fields:
  "sequencer_reporting_enabled enabled_state" "test_reports enabled_state = []"
  "posts enabled_state = []" "sequencer_api_url enabled_state = ''http://localhost:8765/''"
  "stderr enabled_state = []"
  by (simp_all add: example_defs)

section \<open>The claims\<close>

text \<open>
  C1. Whatever reports are stored for a test, if the setup report is there with outcome
  \<open>failed\<close> and is not marked as an expected failure, or the teardown report is there
  with outcome \<open>failed\<close> and is not marked so, the final outcome is \<open>error\<close>, whatever
  the call report says. A report counts as marked when
  \<^verbatim>\<open>getattr(report, 'wasxfail', False)\<close> is truthy, which is the test the code makes.
\<close>

theorem setup_or_teardown_failure_is_error:
  assumes "(\<exists>s. map_of reps ''setup'' = Some s \<and> outcome s = ''failed'' \<and> \<not> getattr_wasxfail s)
         \<or> (\<exists>t. map_of reps ''teardown'' = Some t \<and> outcome t = ''failed'' \<and> \<not> getattr_wasxfail t)"
  shows "reconcile_outcome reps = ''error''"
proof -
  from assms
  have "failed_unexpectedly (map_of reps ''setup'') \<or> failed_unexpectedly (map_of reps ''teardown'')"
    by (auto simp: failed_unexpectedly_def)
  then show ?thesis
    by (simp add: reconcile_outcome_def Let_def)
qed

theorem setup_or_teardown_failure_is_error_witness:
  "map_of [(''setup'', example_report ''setup'' ''failed'' d0_1),
           (''call'', example_report ''call'' ''passed'' d0_2),
           (''teardown'', example_report ''teardown'' ''passed'' d0_05)] ''setup''
     = Some (example_report ''setup'' ''failed'' d0_1)
   \<and> outcome (example_report ''setup'' ''failed'' d0_1) = ''failed''
   \<and> \<not> getattr_wasxfail (example_report ''setup'' ''failed'' d0_1)
   \<and> reconcile_outcome
        [(''setup'', example_report ''setup'' ''failed'' d0_1),
         (''call'', example_report ''call'' ''passed'' d0_2),
         (''teardown'', example_report ''teardown'' ''passed'' d0_05)] = ''error''"
proof -
  have h: "map_of [(''setup'', example_report ''setup'' ''failed'' d0_1),
           (''call'', example_report ''call'' ''passed'' d0_2),
           (''teardown'', example_report ''teardown'' ''passed'' d0_05)] ''setup''
     = Some (example_report ''setup'' ''failed'' d0_1)
   \<and> outcome (example_report ''setup'' ''failed'' d0_1) = ''failed''
   \<and> \<not> getattr_wasxfail (example_report ''setup'' ''failed'' d0_1)"
    by (simp add: example_report_def getattr_wasxfail_def)
  then have "reconcile_outcome
        [(''setup'', example_report ''setup'' ''failed'' d0_1),
         (''call'', example_report ''call'' ''passed'' d0_2),
         (''teardown'', example_report ''teardown'' ''passed'' d0_05)] = ''error''"
    by (intro setup_or_teardown_failure_is_error) blast
  with h show ?thesis by blast
qed

text \<open>
  C2. The claim: when neither the setup report nor the teardown report failed
  unexpectedly and a call report is stored, a call report marked as an expected failure
  gives \<open>xpassed\<close> for a call outcome \<open>passed\<close> and \<open>xfailed\<close> for any other, and an
  unmarked one gives its own outcome. The code does not do this for every marked report.
  A report of a test under an expected-failure mark carries the attribute
  \<^verbatim>\<open>wasxfail\<close> with the reason of the mark, the empty string when the mark gives none.
  Line 135 tests the truth value of the attribute, so a marked report with an empty
  reason takes the branch of the unmarked ones: with the call outcome \<open>skipped\<close>, which
  is the outcome of a test that failed as expected, the final outcome is \<open>skipped\<close> and
  not \<open>xfailed\<close>, and with \<open>passed\<close> it is \<open>passed\<close> and not \<open>xpassed\<close>. The
  comment of line 148 reserves that branch for a test skipped without the mark.
\<close>

theorem empty_reason_is_taken_as_unmarked:
  "wasxfail ((example_report ''call'' ''skipped'' d0_2)\<lparr>wasxfail := Some []\<rparr>) \<noteq> None
   \<and> map_of
        [(''setup'', example_report ''setup'' ''passed'' d0_1),
         (''call'', (example_report ''call'' ''skipped'' d0_2)\<lparr>wasxfail := Some []\<rparr>),
         (''teardown'', example_report ''teardown'' ''passed'' d0_05)] ''call''
       = Some ((example_report ''call'' ''skipped'' d0_2)\<lparr>wasxfail := Some []\<rparr>)
   \<and> reconcile_outcome
        [(''setup'', example_report ''setup'' ''passed'' d0_1),
         (''call'', (example_report ''call'' ''skipped'' d0_2)\<lparr>wasxfail := Some []\<rparr>),
         (''teardown'', example_report ''teardown'' ''passed'' d0_05)] = ''skipped''
   \<and> reconcile_outcome
        [(''setup'', example_report ''setup'' ''passed'' d0_1),
         (''call'', (example_report ''call'' ''passed'' d0_2)\<lparr>wasxfail := Some []\<rparr>),
         (''teardown'', example_report ''teardown'' ''passed'' d0_05)] = ''passed''"
  by (simp add: example_report_def reconcile_outcome_def failed_unexpectedly_def
        getattr_wasxfail_def Let_def)

text \<open>
  C3. When no call report is stored and neither the setup report nor the teardown
  report failed unexpectedly, the final outcome is \<open>skipped\<close> if a setup report is
  stored with outcome \<open>skipped\<close>, and \<open>error\<close> in every other case, which includes a
  setup report with outcome \<open>passed\<close> and a missing setup report.
\<close>

theorem no_call_report:
  assumes "\<not> failed_unexpectedly (map_of reps ''setup'')"
    and "\<not> failed_unexpectedly (map_of reps ''teardown'')"
    and "map_of reps ''call'' = None"
  shows "reconcile_outcome reps =
           (if (\<exists>s. map_of reps ''setup'' = Some s \<and> outcome s = ''skipped'')
            then ''skipped'' else ''error'')"
  using assms by (auto simp: reconcile_outcome_def Let_def split: option.splits)

theorem no_call_report_witness:
  "\<not> failed_unexpectedly (map_of
        [(''setup'', example_report ''setup'' ''skipped'' fzero),
         (''teardown'', example_report ''teardown'' ''passed'' fzero)] ''setup'')
   \<and> \<not> failed_unexpectedly (map_of
        [(''setup'', example_report ''setup'' ''skipped'' fzero),
         (''teardown'', example_report ''teardown'' ''passed'' fzero)] ''teardown'')
   \<and> map_of [(''setup'', example_report ''setup'' ''skipped'' fzero),
         (''teardown'', example_report ''teardown'' ''passed'' fzero)] ''call'' = None
   \<and> reconcile_outcome
        [(''setup'', example_report ''setup'' ''skipped'' fzero),
         (''teardown'', example_report ''teardown'' ''passed'' fzero)] = ''skipped''"
  using no_call_report
    [of "[(''setup'', example_report ''setup'' ''skipped'' fzero),
         (''teardown'', example_report ''teardown'' ''passed'' fzero)]"]
  by (simp add: example_report_def failed_unexpectedly_def getattr_wasxfail_def)

text \<open>
  C4. The reconciliation is a function of the stored reports alone and is defined on
  every association list of reports, with any of the three phases present or absent and
  any outcomes and marks: no path of lines 123 to 157 raises. Its result is one of the
  six literals, or it is the outcome of the stored call report passed through.
\<close>

theorem reconcile_outcome_range:
  "reconcile_outcome reps \<in> {''passed'', ''failed'', ''skipped'', ''error'', ''xfailed'', ''xpassed''}
   \<or> (\<exists>c. map_of reps ''call'' = Some c \<and> reconcile_outcome reps = outcome c)"
  by (simp add: reconcile_outcome_def Let_def split: option.splits)

theorem reconcile_outcome_range_witness:
  "reconcile_outcome
     [(''setup'', example_report ''setup'' ''passed'' fzero),
      (''call'', example_report ''call'' ''rerun'' fzero),
      (''teardown'', example_report ''teardown'' ''passed'' fzero)] = ''rerun''
   \<and> reconcile_outcome [] = ''error''"
  using reconcile_outcome_range
    [of "[(''setup'', example_report ''setup'' ''passed'' fzero),
      (''call'', example_report ''call'' ''rerun'' fzero),
      (''teardown'', example_report ''teardown'' ''passed'' fzero)]"]
    reconcile_outcome_range [of "[]"]
  by (simp add: example_report_def reconcile_outcome_def failed_unexpectedly_def
        getattr_wasxfail_def Let_def)

text \<open>
  C5. With reporting switched on, processing a teardown report for a test id leaves no
  entry for that id in the buffer, whatever the delivery attempt did (returned, raised
  a request exception, or raised anything else). The entries of all other test ids are
  as before. A further report for the same id starts from an empty entry, so nothing
  more can be computed from the evicted one; and in a buffer of the invariant shape the
  entry that a later report for a different id sees holds no report of the evicted id.
\<close>

theorem teardown_evicts_entry:
  assumes "sequencer_reporting_enabled s" and "when_phase rep = ''teardown''"
    and "s' = fst (pytest_runtest_logreport po rep s)"
  shows "map_of (test_reports s') (nodeid rep) = None
       \<and> (\<forall>nid. nid \<noteq> nodeid rep \<longrightarrow> map_of (test_reports s') nid = map_of (test_reports s) nid)
       \<and> (\<forall>r2. nodeid r2 = nodeid rep \<longrightarrow> store_report s' r2 = [(when_phase r2, r2)])
       \<and> (buffer_ok s \<longrightarrow>
            (\<forall>r2. nodeid r2 \<noteq> nodeid rep \<longrightarrow>
                  list_all (\<lambda>kv. nodeid (snd kv) \<noteq> nodeid rep) (store_report s' r2)))"
proof (intro conjI allI impI)
  show "map_of (test_reports s') (nodeid rep) = None"
    using assms by (simp add: logreport_teardown_buffer map_of_delete_same)
next
  fix nid assume "nid \<noteq> nodeid rep"
  then show "map_of (test_reports s') nid = map_of (test_reports s) nid"
    using assms by (simp add: logreport_teardown_buffer AList.delete_conv AList.update_conv')
next
  fix r2 :: report assume "nodeid r2 = nodeid rep"
  then show "store_report s' r2 = [(when_phase r2, r2)]"
    using assms by (simp add: store_report_after_teardown_same)
next
  fix r2 :: report assume ok: "buffer_ok s" and other: "nodeid r2 \<noteq> nodeid rep"
  have "store_report s' r2 = store_report s r2"
    using assms other by (simp add: store_report_after_teardown_other)
  with store_report_nodeids [OF ok, of r2] other
  show "list_all (\<lambda>kv. nodeid (snd kv) \<noteq> nodeid rep) (store_report s' r2)"
    by (simp add: list_all_iff)
qed

theorem teardown_evicts_entry_witness:
  "sequencer_reporting_enabled buffered_state
   \<and> when_phase (example_report ''teardown'' ''passed'' d0_05) = ''teardown''
   \<and> map_of (test_reports buffered_state) ''test_mod.py::test_ok'' =
       Some [(''setup'', example_report ''setup'' ''passed'' d0_1),
             (''call'', example_report ''call'' ''passed'' d0_2)]
   \<and> map_of (test_reports (fst (pytest_runtest_logreport (Raised (ConnectionError ''Connection refused''))
          (example_report ''teardown'' ''passed'' d0_05) buffered_state)))
        ''test_mod.py::test_ok'' = None"
proof -
  have h: "sequencer_reporting_enabled buffered_state"
    "when_phase (example_report ''teardown'' ''passed'' d0_05) = ''teardown''"
    by (simp_all add: buffered_state_eq enabled_state_fields example_report_def)
  have n: "nodeid (example_report ''teardown'' ''passed'' d0_05) = ''test_mod.py::test_ok''"
    by (simp add: example_report_def)
  from teardown_evicts_entry [OF h refl, of "Raised (ConnectionError ''Connection refused'')"]
  have "map_of (test_reports (fst (pytest_runtest_logreport (Raised (ConnectionError ''Connection refused''))
          (example_report ''teardown'' ''passed'' d0_05) buffered_state)))
        ''test_mod.py::test_ok'' = None"
    unfolding n by blast
  with h show ?thesis
    by (simp add: buffered_state_eq)
qed

text \<open>
  C6, as amended. A delivery attempt that fails with a request exception (a failure
  status raised by \<^verbatim>\<open>raise_for_status\<close>, or a transport failure) does not leave the
  hook: both test hooks return normally. When the attempt was made, the failure notice
  and the line with the text of the exception are printed and the traceback of that
  exception is written. A whole run of hook calls whose delivery attempts return or fail
  in this way ends without an exception.
\<close>

theorem request_failure_is_swallowed:
  assumes "isinstance_RequestException e"
  shows "snd (pytest_runtest_logstart (Raised e) nid loc s) = None
       \<and> snd (pytest_runtest_logreport (Raised e) rep s) = None
       \<and> (nid \<noteq> [] \<and> sequencer_reporting_enabled s \<longrightarrow>
            stdout (fst (pytest_runtest_logstart (Raised e) nid loc s)) =
              stdout s @ [''Failed to send test_started message for '' @ nid,
                          ''Exception: '' @ str_exc e]
          \<and> stderr (fst (pytest_runtest_logstart (Raised e) nid loc s)) = stderr s @ [e])
       \<and> (sequencer_reporting_enabled s \<and> when_phase rep = ''teardown'' \<longrightarrow>
            stdout (fst (pytest_runtest_logreport (Raised e) rep s)) =
              stdout s @ [''Failed to send test_finished message for '' @ nodeid rep,
                          ''Exception: '' @ str_exc e]
          \<and> stderr (fst (pytest_runtest_logreport (Raised e) rep s)) = stderr s @ [e])
       \<and> (list_all (\<lambda>c. handled (snd c)) calls \<longrightarrow> snd (run_hooks calls s) = None)"
proof (intro conjI impI)
  show "snd (pytest_runtest_logstart (Raised e) nid loc s) = None"
    using assms by (simp add: logstart_raised)
  show "snd (pytest_runtest_logreport (Raised e) rep s) = None"
    using assms by (simp add: logreport_raised)
  show "snd (run_hooks calls s) = None" if "list_all (\<lambda>c. handled (snd c)) calls"
    using that by (rule run_hooks_handled)
next
  assume "nid \<noteq> [] \<and> sequencer_reporting_enabled s"
  with assms
  show "stdout (fst (pytest_runtest_logstart (Raised e) nid loc s)) =
          stdout s @ [''Failed to send test_started message for '' @ nid,
                      ''Exception: '' @ str_exc e]"
    and "stderr (fst (pytest_runtest_logstart (Raised e) nid loc s)) = stderr s @ [e]"
    by (simp_all add: pytest_runtest_logstart_def Let_def)
next
  assume "sequencer_reporting_enabled s \<and> when_phase rep = ''teardown''"
  with assms
  show "stdout (fst (pytest_runtest_logreport (Raised e) rep s)) =
          stdout s @ [''Failed to send test_finished message for '' @ nodeid rep,
                      ''Exception: '' @ str_exc e]"
    and "stderr (fst (pytest_runtest_logreport (Raised e) rep s)) = stderr s @ [e]"
    by (simp_all add: pytest_runtest_logreport_def Let_def)
qed

theorem request_failure_is_swallowed_witness:
  "isinstance_RequestException (HTTPError ''503 Server Error'')
   \<and> sequencer_reporting_enabled enabled_state
   \<and> snd (pytest_runtest_logstart (Raised (HTTPError ''503 Server Error''))
          ''test_mod.py::test_ok'' (''test_mod.py'', Some 3, ''test_ok'') enabled_state) = None
   \<and> stdout (fst (pytest_runtest_logstart (Raised (HTTPError ''503 Server Error''))
          ''test_mod.py::test_ok'' (''test_mod.py'', Some 3, ''test_ok'') enabled_state)) =
       stdout enabled_state @
         [''Failed to send test_started message for test_mod.py::test_ok'',
          ''Exception: 503 Server Error'']
   \<and> snd (pytest_runtest_logreport (Raised (HTTPError ''503 Server Error''))
          (example_report ''teardown'' ''passed'' d0_05) enabled_state) = None
   \<and> stderr (fst (pytest_runtest_logreport (Raised (HTTPError ''503 Server Error''))
          (example_report ''teardown'' ''passed'' d0_05) enabled_state)) =
       [HTTPError ''503 Server Error'']"
proof -
  have h: "isinstance_RequestException (HTTPError ''503 Server Error'')"
    by simp
  have en: "sequencer_reporting_enabled enabled_state"
    "when_phase (example_report ''teardown'' ''passed'' d0_05) = ''teardown''"
    "nodeid (example_report ''teardown'' ''passed'' d0_05) = ''test_mod.py::test_ok''"
    "stderr enabled_state = []"
    by (simp_all add: enabled_state_fields example_report_def)
  from request_failure_is_swallowed
    [OF h, of "''test_mod.py::test_ok''" "(''test_mod.py'', Some 3, ''test_ok'')" enabled_state
        "example_report ''teardown'' ''passed'' d0_05" "[]"] h en
  show ?thesis
    by simp
qed

text \<open>
  C6, as stated, says that no exception of a delivery attempt leaves the hook. The
  handler is \<^verbatim>\<open>except requests.RequestException\<close>, so an exception of another class
  passes through it. The HTTP library raises one, a \<^verbatim>\<open>TypeError\<close>, when the JSON body
  cannot be encoded, as for a user property whose value is a \<^verbatim>\<open>datetime\<close>: the teardown
  hook then raises that exception to the runner.
\<close>

theorem other_exception_leaves_hook_counterexample:
  "snd (pytest_runtest_logreport
          (Raised (OtherException ''Object of type datetime is not JSON serializable''))
          ((example_report ''teardown'' ''passed'' d0_05)
             \<lparr>user_properties := [(''started_at'', PObject ''datetime'')]\<rparr>)
          buffered_state)
     = Some (OtherException ''Object of type datetime is not JSON serializable'')"
  by (simp add: logreport_raised buffered_state_eq enabled_state_fields example_report_def)

text \<open>
  C7. With reporting switched off, any sequence of test-started and phase-report hook
  calls, whatever the network would have done, returns the state unchanged: no delivery
  attempt is recorded and the buffer is the same.
\<close>

theorem disabled_reporting_is_noop:
  assumes "\<not> sequencer_reporting_enabled s"
  shows "run_hooks calls s = (s, None)
       \<and> posts (fst (run_hooks calls s)) = posts s
       \<and> test_reports (fst (run_hooks calls s)) = test_reports s"
  using assms by (simp add: run_hooks_disabled)

theorem disabled_reporting_is_noop_witness:
  "\<not> sequencer_reporting_enabled disabled_state
   \<and> run_hooks
       [(Logstart ''test_mod.py::test_ok'' (''test_mod.py'', Some 3, ''test_ok''), Returned),
        (Logreport (example_report ''setup'' ''passed'' d0_1), Returned),
        (Logreport (example_report ''call'' ''passed'' d0_2), Returned),
        (Logreport (example_report ''teardown'' ''passed'' d0_05), Returned)]
       disabled_state = (disabled_state, None)
   \<and> posts disabled_state = []
   \<and> test_reports disabled_state = []"
proof -
  have h: "\<not> sequencer_reporting_enabled disabled_state"
    by (simp add: example_defs)
  from disabled_reporting_is_noop
    [OF h,
     of "[(Logstart ''test_mod.py::test_ok'' (''test_mod.py'', Some 3, ''test_ok''), Returned),
          (Logreport (example_report ''setup'' ''passed'' d0_1), Returned),
          (Logreport (example_report ''call'' ''passed'' d0_2), Returned),
          (Logreport (example_report ''teardown'' ''passed'' d0_05), Returned)]"] h
  show ?thesis
    by (simp add: example_defs)
qed




text \<open>
  C9. With the list-options flag set, the session-start hook prints one line, the text
  that \<^verbatim>\<open>json.dumps\<close> returns for the list of registered option dictionaries (name,
  default, help) without the one named \<open>--list-options\<close>, and raises the runner's
  exit exception with return code 0; it changes nothing else. A session whose start hook
  raises runs no test hook. For the three options the plugin registers, each accepted by
  the runner's parser, the serialised list holds the other two.
\<close>

theorem list_options_prints_and_exits:
  assumes "dumps (filter (\<lambda>option. opt_name option \<noteq> ''--list-options'') (custom_options s))
             = Inr json_output"
  shows "pytest_sessionstart dumps True s =
           (s\<lparr>stdout := stdout s @ [json_output]\<rparr>,
            Some (Exit ''Listed all custom options in JSON format.'' 0))
       \<and> run_session dumps True calls s = pytest_sessionstart dumps True s
       \<and> filter (\<lambda>option. opt_name option \<noteq> ''--list-options'')
            (custom_options (fst (pytest_addoption Returned Returned Returned initial_state))) =
           [\<lparr>opt_name = ''--enable-sequencer-reporting'', opt_default = PBool False,
             opt_help = PStr ''Enable notifications to the test sequencer GUI.''\<rparr>,
            \<lparr>opt_name = ''--sequencer-api'', opt_default = PStr ''http://localhost:8765/'',
             opt_help = PStr ''API URL for sequencer''\<rparr>]"
  using assms
  by (simp add: pytest_sessionstart_def run_session_def Let_def pytest_addoption_def
        add_custom_option_def initial_state_def)

theorem list_options_prints_and_exits_witness:
  "join_names
     (filter (\<lambda>option. opt_name option \<noteq> ''--list-options'') (custom_options registered_state))
     = Inr ''--enable-sequencer-reporting--sequencer-api''
   \<and> run_session join_names True
        [(Logstart ''test_mod.py::test_ok'' (''test_mod.py'', Some 3, ''test_ok''), Returned)]
        registered_state =
       (registered_state\<lparr>stdout := [''--enable-sequencer-reporting--sequencer-api'']\<rparr>,
        Some (Exit ''Listed all custom options in JSON format.'' 0))"
proof -
  have h: "join_names
     (filter (\<lambda>option. opt_name option \<noteq> ''--list-options'') (custom_options registered_state))
     = Inr ''--enable-sequencer-reporting--sequencer-api''"
    by (simp add: join_names_def registered_state_def pytest_addoption_def
          add_custom_option_def initial_state_def)
  have out: "stdout registered_state = []"
    by (simp add: registered_state_def pytest_addoption_def add_custom_option_def
          initial_state_def)
  from list_options_prints_and_exits [of join_names registered_state, OF h] h out
  show ?thesis
    by simp
qed

text \<open>
  C10. The test-started hook with an empty test id returns the state unchanged, also
  with reporting switched on; it records a delivery attempt, of the \<open>test_started\<close>
  message for that id, exactly when the id is non-empty and reporting is switched on.
\<close>

theorem logstart_needs_test_id:
  "pytest_runtest_logstart po [] loc s = (s, None)
   \<and> posts (fst (pytest_runtest_logstart po nid loc s)) =
       (if nid \<noteq> [] \<and> sequencer_reporting_enabled s
        then posts s @ [(sequencer_api_url s @ API_ENDPOINT, Test_started nid)]
        else posts s)"
  by (simp add: pytest_runtest_logstart_def Let_def split: call_outcome.splits)

theorem logstart_needs_test_id_witness:
  "pytest_runtest_logstart Returned [] (''test_mod.py'', Some 3, ''test_ok'') enabled_state =
     (enabled_state, None)
   \<and> posts (fst (pytest_runtest_logstart Returned ''test_mod.py::test_ok''
                    (''test_mod.py'', Some 3, ''test_ok'') enabled_state)) =
       [(''http://localhost:8765//message'', Test_started ''test_mod.py::test_ok'')]"
  using logstart_needs_test_id [of Returned "(''test_mod.py'', Some 3, ''test_ok'')" enabled_state
          "''test_mod.py::test_ok''"]
  by (simp add: enabled_state_fields API_ENDPOINT_def)

end
